theory Spec2Isabelle
  imports Main "HOL-Library.Word" "HOL-Library.Sublist"
begin

section \<open>JavaScript strings\<close>

text \<open>
  A JavaScript string is a sequence of 16-bit UTF-16 code units. The literals of the
  source are ASCII, so \<open>js\<close> turns a HOL string literal into its code units.
\<close>

type_synonym jsstring = "16 word list"

definition js :: "string \<Rightarrow> jsstring" where
  "js s = map (\<lambda>c. of_nat (of_char c)) s"

text \<open>
  The string iterator behind \<^verbatim>\<open>for (const char of text)\<close> walks the string by code
  point: a lead surrogate followed by a trail surrogate is one code point above U+FFFF,
  every other code unit (a lone surrogate too) is a code point by itself.
  \<open>codePoints\<close> lists \<^verbatim>\<open>char.codePointAt(0)\<close> for each \<^verbatim>\<open>char\<close> of the iteration.
\<close>

definition isLeadSurrogate :: "16 word \<Rightarrow> bool" where
  "isLeadSurrogate u = (0xD800 \<le> u \<and> u \<le> 0xDBFF)"

definition isTrailSurrogate :: "16 word \<Rightarrow> bool" where
  "isTrailSurrogate u = (0xDC00 \<le> u \<and> u \<le> 0xDFFF)"

fun codePoints :: "jsstring \<Rightarrow> nat list" where
  "codePoints [] = []"
| "codePoints [u] = [unat u]"
| "codePoints (u # v # rest) =
     (if isLeadSurrogate u \<and> isTrailSurrogate v
      then (0x10000 + (unat u - 0xD800) * 0x400 + (unat v - 0xDC00)) # codePoints rest
      else unat u # codePoints (v # rest))"

text \<open>
  \<^verbatim>\<open>String.prototype.trim\<close> removes the WhiteSpace and LineTerminator code points of
  ECMAScript from both ends; the regular expression class \<^verbatim>\<open>\s\<close> is the same set.
\<close>

definition isWhiteSpace :: "16 word \<Rightarrow> bool" where
  "isWhiteSpace u =
     (u = 0x0009 \<or> u = 0x000A \<or> u = 0x000B \<or> u = 0x000C \<or> u = 0x000D \<or> u = 0x0020 \<or>
      u = 0x00A0 \<or> u = 0x1680 \<or> (0x2000 \<le> u \<and> u \<le> 0x200A) \<or> u = 0x2028 \<or>
      u = 0x2029 \<or> u = 0x202F \<or> u = 0x205F \<or> u = 0x3000 \<or> u = 0xFEFF)"

definition trim :: "jsstring \<Rightarrow> jsstring" where
  "trim s = rev (dropWhile isWhiteSpace (rev (dropWhile isWhiteSpace s)))"

text \<open>
  \<^verbatim>\<open>text.split(sep)\<close> for a one-unit separator: the pieces between the separators, in
  order; the empty string gives one empty piece.
\<close>

fun split :: "16 word \<Rightarrow> jsstring \<Rightarrow> jsstring list" where
  "split sep [] = [[]]"
| "split sep (c # cs) =
     (if c = sep then [] # split sep cs
      else (case split sep cs of [] \<Rightarrow> [[c]] | l # ls \<Rightarrow> (c # l) # ls))"

section \<open>src/domain/script-detector.ts\<close>

text \<open>The three values \<^verbatim>\<open>'devanagari' | 'iast' | 'mixed'\<close> of the source's \<open>ScriptType\<close>.\<close>

datatype ScriptType = Devanagari | Iast | Mixed

definition DEVANAGARI_RANGE_START :: nat where
  "DEVANAGARI_RANGE_START = 0x0900"

definition DEVANAGARI_RANGE_END :: nat where
  "DEVANAGARI_RANGE_END = 0x097f"

definition isDevanagari :: "nat \<Rightarrow> bool" where
  "isDevanagari codePoint =
     (codePoint \<ge> DEVANAGARI_RANGE_START \<and> codePoint \<le> DEVANAGARI_RANGE_END)"

text \<open>
  \<open>isLatin\<close> tests \<^verbatim>\<open>/\p{Script=Latin}/u\<close> on one code point. The table of the Unicode
  script property belongs to the regular expression engine, not to the repository, so the
  detector takes it as the parameter \<open>isLatin\<close>.

  The loop of \<open>detect\<close> carries the two flags and returns \<open>Mixed\<close> from inside the loop
  as soon as both are set.
\<close>

fun detect_loop :: "(nat \<Rightarrow> bool) \<Rightarrow> bool \<Rightarrow> bool \<Rightarrow> nat list \<Rightarrow> ScriptType" where
  "detect_loop isLatin hasDevanagari hasLatin [] =
     (if hasDevanagari then Devanagari else Iast)"
| "detect_loop isLatin hasDevanagari hasLatin (char # chars) =
     (let hasDevanagari' = (if isDevanagari char then True else hasDevanagari);
          hasLatin' = (if isDevanagari char then hasLatin
                       else if isLatin char then True else hasLatin)
      in if hasDevanagari' \<and> hasLatin' then Mixed
         else detect_loop isLatin hasDevanagari' hasLatin' chars)"

definition detect :: "(nat \<Rightarrow> bool) \<Rightarrow> jsstring \<Rightarrow> ScriptType" where
  "detect isLatin text = detect_loop isLatin False False (codePoints text)"

section \<open>src/domain/script-normalizer.ts\<close>

datatype NormalizationResult =
    Success (iast: jsstring) (originalScript: ScriptType)
  | Failure (error: jsstring)

definition MIXED_SCRIPT_MESSAGE :: jsstring where
  "MIXED_SCRIPT_MESSAGE = js ''Mixed script input is not supported. Please provide text in either Devanagari or IAST format, not both.''"

text \<open>
  \<open>normalize\<close> of \<open>ScriptNormalizerImpl\<close>; the injected detector is \<open>detect isLatin\<close>, the
  injected converter's \<open>toIast\<close> is the parameter of that name.
\<close>

definition normalize :: "(nat \<Rightarrow> bool) \<Rightarrow> (jsstring \<Rightarrow> jsstring) \<Rightarrow> jsstring \<Rightarrow> NormalizationResult" where
  "normalize isLatin toIast text =
     (let scriptType = detect isLatin text
      in if scriptType = Mixed then Failure MIXED_SCRIPT_MESSAGE
         else if scriptType = Devanagari then Success (toIast text) Devanagari
         else Success text Iast)"

section \<open>src/domain/text-normalizer.ts\<close>

definition normalizeToLines :: "jsstring \<Rightarrow> jsstring list" where
  "normalizeToLines text = filter (\<lambda>line. length (trim line) > 0) (split 0x000A text)"

section \<open>src/domain/types.ts and the collaborator ports\<close>

text \<open>
  \<open>includes_str\<close> is \<^verbatim>\<open>String.prototype.includes\<close>: the second string occurs in the first.
\<close>

fun includes_str :: "jsstring \<Rightarrow> jsstring \<Rightarrow> bool" where
  "includes_str [] sub = (sub = [])"
| "includes_str (c # cs) sub = (prefix sub (c # cs) \<or> includes_str cs sub)"

record DictionaryDefinition =
  source :: jsstring
  definition_text :: jsstring

text \<open>
  An optional field of the source (\<^verbatim>\<open>field?: T\<close>) is an \<open>option\<close>: \<open>None\<close> is the
  field reading \<^verbatim>\<open>undefined\<close> (left out, or written with an \<^verbatim>\<open>undefined\<close> value; the
  callers, the tests and the JSON output do not tell the two apart), \<open>Some []\<close> is the
  field set to the empty array. The unit tests build word entries without
  \<open>grammaticalForm\<close>, \<open>dictionaryDefinitions\<close> and \<open>contextualNote\<close>, so these three are
  the optional fields of a word entry.
\<close>

record WordEntry =
  word :: jsstring
  grammaticalForm :: "jsstring option"
  meanings :: "jsstring list"
  dictionaryDefinitions :: "DictionaryDefinition list option"
  contextualNote :: "jsstring option"

record LlmTranslationResponse =
  llm_words :: "WordEntry list"
  llm_alternativeTranslations :: "jsstring list option"

record TranslationResult =
  originalText :: "jsstring list"
  iastText :: "jsstring list"
  words :: "WordEntry list"
  alternativeTranslations :: "jsstring list option"
  warnings :: "jsstring list option"

text \<open>
  What a call can throw: the two error classes of the repository, the runtime's
  \<open>TypeError\<close>, and any other \<open>Error\<close> with its message (what a collaborator rejects with).
\<close>

datatype js_error =
    TranslationError jsstring
  | ClaudeLlmError jsstring
  | TypeError
  | Error jsstring

text \<open>
  The two collaborators are the parameters \<open>llmClient\<close> (its \<open>translateSutra\<close>) and
  \<open>dictionaryClient\<close> (its \<open>lookupWords\<close>); a rejected promise is \<open>Inl\<close>. A translation
  returns its outcome together with the collaborator calls it made, in the order made.
\<close>

datatype call = translateSutra jsstring | lookupWords "jsstring list"

type_synonym LlmClient = "jsstring \<Rightarrow> js_error + LlmTranslationResponse"

type_synonym DictionaryClient =
  "jsstring list \<Rightarrow> js_error + (jsstring \<rightharpoonup> DictionaryDefinition list)"

type_synonym TranslationService = "jsstring \<Rightarrow> (js_error + TranslationResult) \<times> call list"

section \<open>src/adapters/hybrid-translation-service.ts: class HybridTranslationService\<close>

definition DICTIONARY_WARNING :: jsstring where
  "DICTIONARY_WARNING = js ''Dictionary API unavailable - showing LLM-only translations''"

text \<open>
  \<open>HybridTranslationService.translate\<close>. The \<^verbatim>\<open>await\<close> of \<open>translateSutra\<close> is outside the
  \<^verbatim>\<open>try\<close>, so its rejection leaves the function at once; the \<^verbatim>\<open>catch\<close> around
  \<open>lookupWords\<close> replaces the result by an empty \<^verbatim>\<open>Map\<close> and sets \<open>warnings\<close>; the merge
  of step 4 runs after either branch. \<^verbatim>\<open>dictResults.get(w) || []\<close> is the stored list, or
  \<open>[]\<close> for a word the map has no entry for.
\<close>

definition HybridTranslationService_translate ::
    "LlmClient \<Rightarrow> DictionaryClient \<Rightarrow> TranslationService" where
  "HybridTranslationService_translate llmClient dictionaryClient sutra =
     (case llmClient sutra of
        Inl e \<Rightarrow> (Inl e, [translateSutra sutra])
      | Inr llmResponse \<Rightarrow>
          (let ws = map word (llm_words llmResponse);
               (dictResults, warnings') =
                  (case dictionaryClient ws of
                     Inr m \<Rightarrow> (m, None)
                   | Inl e \<Rightarrow> (Map.empty, Some [DICTIONARY_WARNING]));
               enhancedWords =
                  map (\<lambda>llmWord. llmWord\<lparr>dictionaryDefinitions :=
                         Some (case dictResults (word llmWord) of Some ds \<Rightarrow> ds | None \<Rightarrow> [])\<rparr>)
                      (llm_words llmResponse);
               originalText' = filter (\<lambda>line. length (trim line) > 0) (split 0x000A sutra);
               iastText' = filter (\<lambda>line. length (trim line) > 0) (split 0x000A sutra)
           in (Inr \<lparr>originalText = originalText', iastText = iastText',
                     words = enhancedWords,
                     alternativeTranslations = llm_alternativeTranslations llmResponse,
                     warnings = warnings'\<rparr>,
               [translateSutra sutra, lookupWords ws])))"

section \<open>src/adapters/normalizing-translation-service.ts: class NormalizingTranslationService\<close>

text \<open>
  \<open>NormalizingTranslationService.translate\<close>, the version that returns the two texts as
  arrays. The \<^verbatim>\<open>throw\<close> on a failed normalization comes before the delegate is called.
\<close>

definition NormalizingTranslationService_translate ::
    "(nat \<Rightarrow> bool) \<Rightarrow> (jsstring \<Rightarrow> jsstring) \<Rightarrow> TranslationService \<Rightarrow> TranslationService" where
  "NormalizingTranslationService_translate isLatin toIast delegate sutra =
     (case normalize isLatin toIast sutra of
        Failure err \<Rightarrow> (Inl (TranslationError err), [])
      | Success normalized_iast script \<Rightarrow>
          (case delegate normalized_iast of
             (Inl e, calls) \<Rightarrow> (Inl e, calls)
           | (Inr result, calls) \<Rightarrow>
               (Inr (result\<lparr>
                  originalText := filter (\<lambda>line. length (trim line) > 0) (split 0x000A sutra),
                  iastText := filter (\<lambda>line. length (trim line) > 0) (split 0x000A normalized_iast)\<rparr>),
                calls)))"

section \<open>src/adapters/claude-llm-client.ts: class ClaudeLlmClient\<close>

text \<open>
  The content of an \<^verbatim>\<open>Anthropic.Message\<close>: a text block carries its text, every other
  block type is \<open>OtherBlock\<close>. The guard \<^verbatim>\<open>!response.content\<close> is the case \<open>None\<close>.
\<close>

datatype ContentBlock = TextBlock jsstring | OtherBlock

record Message =
  content :: "ContentBlock list option"

text \<open>
  What \<^verbatim>\<open>JSON.parse\<close> returns. An object is the list of its own properties, each key
  once; \<open>map_of\<close> reads a property and \<^verbatim>\<open>key in obj\<close> asks whether it is there (the
  prototype of a parsed object has none of the keys the client asks for). Numbers are left
  abstract (\<open>'n\<close>): the client only ever turns them into strings.
\<close>

datatype 'n json =
    JNull
  | JBoolean bool
  | JNumber 'n
  | JString jsstring
  | JArray "'n json list"
  | JObject "(jsstring \<times> 'n json) list"

text \<open>
  \<^verbatim>\<open>String(value)\<close> on a parsed value, \<open>None\<close> when the runtime throws a \<open>TypeError\<close>.
  An array is its elements joined by commas (\<^verbatim>\<open>null\<close> elements as the empty string). An
  object has no callable \<^verbatim>\<open>toString\<close> left once the parsed text gave it a property of
  that name, and the conversion to a primitive fails; every other object is
  \<^verbatim>\<open>[object Object]\<close>. \<open>numberToString\<close> is the runtime's rendering of a number.
\<close>

fun ToString :: "('n \<Rightarrow> jsstring) \<Rightarrow> 'n json \<Rightarrow> jsstring option"
  and join_elements :: "('n \<Rightarrow> jsstring) \<Rightarrow> 'n json list \<Rightarrow> jsstring option" where
  "ToString numberToString JNull = Some (js ''null'')"
| "ToString numberToString (JBoolean b) = Some (if b then js ''true'' else js ''false'')"
| "ToString numberToString (JNumber n) = Some (numberToString n)"
| "ToString numberToString (JString s) = Some s"
| "ToString numberToString (JArray xs) = join_elements numberToString xs"
| "ToString numberToString (JObject kvs) =
     (if map_of kvs (js ''toString'') \<noteq> None then None else Some (js ''[object Object]''))"
| "join_elements numberToString [] = Some []"
| "join_elements numberToString (x # xs) =
     (case (case x of JNull \<Rightarrow> Some [] | _ \<Rightarrow> ToString numberToString x) of
        None \<Rightarrow> None
      | Some s \<Rightarrow>
          (if xs = [] then Some s
           else (case join_elements numberToString xs of
                   None \<Rightarrow> None
                 | Some r \<Rightarrow> Some (s @ js '','' @ r))))"

text \<open>
  \<^verbatim>\<open>xs.map(f)\<close> with an \<open>f\<close> that can throw: the elements in order, stopping at the
  first throw.
\<close>

fun map_throwing :: "('a \<Rightarrow> js_error + 'b) \<Rightarrow> 'a list \<Rightarrow> js_error + 'b list" where
  "map_throwing f [] = Inr []"
| "map_throwing f (x # xs) =
     (case f x of
        Inl e \<Rightarrow> Inl e
      | Inr y \<Rightarrow> (case map_throwing f xs of Inl e \<Rightarrow> Inl e | Inr ys \<Rightarrow> Inr (y # ys)))"

text \<open>
  The part of a string after, and the part before, the first occurrence of a pattern.
\<close>

fun afterFirst :: "jsstring \<Rightarrow> jsstring \<Rightarrow> jsstring option" where
  "afterFirst pat [] = (if pat = [] then Some [] else None)"
| "afterFirst pat (c # cs) =
     (if prefix pat (c # cs) then Some (drop (length pat) (c # cs)) else afterFirst pat cs)"

fun beforeFirst :: "jsstring \<Rightarrow> jsstring \<Rightarrow> jsstring option" where
  "beforeFirst pat [] = (if pat = [] then Some [] else None)"
| "beforeFirst pat (c # cs) =
     (if prefix pat (c # cs) then Some []
      else (case beforeFirst pat cs of None \<Rightarrow> None | Some b \<Rightarrow> Some (c # b)))"

definition FENCE :: jsstring where
  "FENCE = [0x60, 0x60, 0x60]"

text \<open>
  \<open>extractJson\<close> matches the text against the regular expression
  \<^verbatim>\<open>FENCE(?:json)?\s*([\s\S]*?)FENCE\<close>, where \<^verbatim>\<open>FENCE\<close> is three backquotes. The match
  starts at the first fence; the optional tag and the white space are taken greedily, the
  group lazily up to the next fence. Neither the tag nor white space contains a backquote,
  so when the greedy choice finds no closing fence no other choice does, there is no match
  and the whole text is trimmed.
\<close>

definition extractJson :: "jsstring \<Rightarrow> jsstring" where
  "extractJson text =
     (case afterFirst FENCE text of
        None \<Rightarrow> trim text
      | Some rest \<Rightarrow>
          (let untagged = (if prefix (js ''json'') rest then drop 4 rest else rest);
               body = dropWhile isWhiteSpace untagged
           in case beforeFirst FENCE body of
                None \<Rightarrow> trim text
              | Some captured \<Rightarrow> trim captured))"

definition EMPTY_RESPONSE :: jsstring where
  "EMPTY_RESPONSE = js ''Empty response from Claude''"

definition PARSE_FAILURE :: jsstring where
  "PARSE_FAILURE = js ''Failed to parse Claude response''"

definition INVALID_STRUCTURE :: jsstring where
  "INVALID_STRUCTURE = js ''Invalid response structure: missing words array''"

definition INVALID_ENTRY :: jsstring where
  "INVALID_ENTRY = js ''Invalid word entry structure''"

text \<open>
  \<open>parseJson\<close>: \<^verbatim>\<open>JSON.parse\<close> is the runtime's, taken as the parameter \<open>JSON_parse\<close>
  (\<open>None\<close> when it throws); whatever it throws becomes the parse failure.
\<close>

definition parseJson :: "(jsstring \<Rightarrow> 'n json option) \<Rightarrow> jsstring \<Rightarrow> js_error + 'n json" where
  "parseJson JSON_parse text =
     (case JSON_parse text of
        Some parsed \<Rightarrow> Inr parsed
      | None \<Rightarrow> Inl (ClaudeLlmError PARSE_FAILURE))"

definition isValidResponse :: "'n json \<Rightarrow> bool" where
  "isValidResponse obj =
     (case obj of
        JObject props \<Rightarrow> (case map_of props (js ''words'') of Some (JArray ws) \<Rightarrow> True | _ \<Rightarrow> False)
      | _ \<Rightarrow> False)"

text \<open>
  \<open>validateWordEntry\<close>: the three \<^verbatim>\<open>in\<close> tests, then the object literal, whose
  properties are evaluated in the order written.
\<close>

definition validateWordEntry :: "('n \<Rightarrow> jsstring) \<Rightarrow> 'n json \<Rightarrow> js_error + WordEntry" where
  "validateWordEntry numberToString entry =
     (case entry of
        JObject e \<Rightarrow>
          (case (map_of e (js ''word''), map_of e (js ''grammaticalForm''), map_of e (js ''meanings'')) of
             (Some e_word, Some e_grammaticalForm, Some e_meanings) \<Rightarrow>
               (case ToString numberToString e_word of
                  None \<Rightarrow> Inl TypeError
                | Some w \<Rightarrow>
                    (case ToString numberToString e_grammaticalForm of
                       None \<Rightarrow> Inl TypeError
                     | Some g \<Rightarrow>
                         (case (case e_meanings of
                                  JArray ms \<Rightarrow>
                                    map_throwing
                                      (\<lambda>m. case ToString numberToString m of
                                              None \<Rightarrow> Inl TypeError | Some t \<Rightarrow> Inr t) ms
                                | _ \<Rightarrow>
                                    (case ToString numberToString e_meanings of
                                       None \<Rightarrow> Inl TypeError | Some t \<Rightarrow> Inr [t])) of
                            Inl err \<Rightarrow> Inl err
                          | Inr ms \<Rightarrow>
                              Inr \<lparr>word = w, grammaticalForm = Some g, meanings = ms,
                                   dictionaryDefinitions = None, contextualNote = None\<rparr>)))
           | _ \<Rightarrow> Inl (ClaudeLlmError INVALID_ENTRY))
      | _ \<Rightarrow> Inl (ClaudeLlmError INVALID_ENTRY))"

definition validateResponse :: "('n \<Rightarrow> jsstring) \<Rightarrow> 'n json \<Rightarrow> js_error + LlmTranslationResponse" where
  "validateResponse numberToString parsed =
     (if \<not> isValidResponse parsed then Inl (ClaudeLlmError INVALID_STRUCTURE)
      else (case parsed of
              JObject props \<Rightarrow>
                (case map_of props (js ''words'') of
                   Some (JArray ws) \<Rightarrow>
                     (case map_throwing (validateWordEntry numberToString) ws of
                        Inl err \<Rightarrow> Inl err
                      | Inr entries \<Rightarrow>
                          Inr \<lparr>llm_words = entries, llm_alternativeTranslations = None\<rparr>)
                 | _ \<Rightarrow> Inl (ClaudeLlmError INVALID_STRUCTURE))
            | _ \<Rightarrow> Inl (ClaudeLlmError INVALID_STRUCTURE)))"

definition is_text :: "ContentBlock \<Rightarrow> bool" where
  "is_text block = (case block of TextBlock t \<Rightarrow> True | OtherBlock \<Rightarrow> False)"

definition parseResponse ::
    "(jsstring \<Rightarrow> 'n json option) \<Rightarrow> ('n \<Rightarrow> jsstring) \<Rightarrow> Message \<Rightarrow> js_error + LlmTranslationResponse" where
  "parseResponse JSON_parse numberToString response =
     (case content response of
        None \<Rightarrow> Inl (ClaudeLlmError EMPTY_RESPONSE)
      | Some blocks \<Rightarrow>
          (if length blocks = 0 then Inl (ClaudeLlmError EMPTY_RESPONSE)
           else (case find is_text blocks of
                   Some (TextBlock text) \<Rightarrow>
                     (case parseJson JSON_parse (extractJson text) of
                        Inl err \<Rightarrow> Inl err
                      | Inr parsed \<Rightarrow> validateResponse numberToString parsed)
                 | _ \<Rightarrow> Inl (ClaudeLlmError EMPTY_RESPONSE))))"

section \<open>Test doubles and sample inputs\<close>

text \<open>
  The collaborators the unit tests inject, and small inputs of the same kind, used to run
  the definitions on concrete data.
\<close>

definition example_entry :: WordEntry where
  "example_entry =
     \<lparr>word = js ''om'', grammaticalForm = Some (js ''indeclinable''),
      meanings = [js ''sacred syllable''], dictionaryDefinitions = None,
      contextualNote = Some (js ''The opening syllable'')\<rparr>"

definition example_response :: LlmTranslationResponse where
  "example_response =
     \<lparr>llm_words = [example_entry], llm_alternativeTranslations = Some [js ''Om'']\<rparr>"

definition example_llmClient :: LlmClient where
  "example_llmClient sutra = Inr example_response"

definition FailingLlmClient :: LlmClient where
  "FailingLlmClient sutra = Inl (Error (js ''LLM service unavailable''))"

definition FailingDictionaryClient :: DictionaryClient where
  "FailingDictionaryClient ws = Inl (Error (js ''Dictionary API unavailable''))"

definition example_definitions :: "DictionaryDefinition list" where
  "example_definitions =
     [\<lparr>source = js ''PWG Dictionary'', definition_text = js ''the sacred syllable''\<rparr>]"

definition example_dictResults :: "jsstring \<rightharpoonup> DictionaryDefinition list" where
  "example_dictResults = [js ''om'' \<mapsto> example_definitions]"

definition example_dictionaryClient :: DictionaryClient where
  "example_dictionaryClient ws = Inr example_dictResults"

text \<open>
  A part of the Latin script: the ASCII letters, the letters of Latin-1 Supplement and of
  Latin Extended-A and B, and Latin Extended Additional.
\<close>

definition example_isLatin :: "nat \<Rightarrow> bool" where
  "example_isLatin c =
     ((0x41 \<le> c \<and> c \<le> 0x5A) \<or> (0x61 \<le> c \<and> c \<le> 0x7A) \<or>
      (0xC0 \<le> c \<and> c \<le> 0x24F \<and> c \<noteq> 0xD7 \<and> c \<noteq> 0xF7) \<or> (0x1E00 \<le> c \<and> c \<le> 0x1EFF))"

text \<open>The two lines \<open>om\<close> and \<open>tat\<close>, separated by a line feed.\<close>

definition example_two_lines :: jsstring where
  "example_two_lines = js ''om'' @ [0x000A] @ js ''tat''"

text \<open>A stub converter: it answers \<open>ka\<close> whatever it is given.\<close>

definition example_toIast :: "jsstring \<Rightarrow> jsstring" where
  "example_toIast devanagariText = js ''ka''"

text \<open>
  Three replies of the model and what \<^verbatim>\<open>JSON.parse\<close> makes of them: one with a
  contextual note and alternative translations, one whose \<open>word\<close> is an object with a
  property named \<open>toString\<close>, one whose entry has no \<open>grammaticalForm\<close> and no
  \<open>meanings\<close>. \<open>example_JSON_parse\<close> agrees with \<^verbatim>\<open>JSON.parse\<close> on these three texts
  and takes nothing else for JSON.
\<close>

definition REPLY_WITH_NOTE :: jsstring where
  \<open>REPLY_WITH_NOTE = js ''{"words":[{"word":"om","grammaticalForm":"indeclinable","meanings":["sacred syllable"],"contextualNote":"The opening syllable"}],"alternativeTranslations":["Om"]}''\<close>

definition parsed_with_note :: "nat json" where
  "parsed_with_note =
     JObject
       [(js ''words'',
         JArray
           [JObject
              [(js ''word'', JString (js ''om'')),
               (js ''grammaticalForm'', JString (js ''indeclinable'')),
               (js ''meanings'', JArray [JString (js ''sacred syllable'')]),
               (js ''contextualNote'', JString (js ''The opening syllable''))]]),
        (js ''alternativeTranslations'', JArray [JString (js ''Om'')])]"

definition REPLY_TOSTRING :: jsstring where
  \<open>REPLY_TOSTRING = js ''{"words":[{"word":{"toString":1},"grammaticalForm":"x","meanings":[]}]}''\<close>

definition parsed_toString :: "nat json" where
  "parsed_toString =
     JObject
       [(js ''words'',
         JArray
           [JObject
              [(js ''word'', JObject [(js ''toString'', JNumber 1)]),
               (js ''grammaticalForm'', JString (js ''x'')),
               (js ''meanings'', JArray [])]])]"

definition REPLY_MISSING_KEY :: jsstring where
  \<open>REPLY_MISSING_KEY = js ''{"words":[{"word":"om"}]}''\<close>

definition parsed_missing_key :: "nat json" where
  "parsed_missing_key =
     JObject [(js ''words'', JArray [JObject [(js ''word'', JString (js ''om''))]])]"

definition example_JSON_parse :: "jsstring \<Rightarrow> nat json option" where
  "example_JSON_parse t =
     (if t = REPLY_WITH_NOTE then Some parsed_with_note
      else if t = REPLY_TOSTRING then Some parsed_toString
      else if t = REPLY_MISSING_KEY then Some parsed_missing_key
      else None)"

text \<open>The decimal digits of a natural number, as the runtime prints a small integer.\<close>

fun decimal :: "nat \<Rightarrow> jsstring" where
  "decimal n =
     (if n < 10 then [of_nat (0x30 + n)]
      else decimal (n div 10) @ [of_nat (0x30 + n mod 10)])"

declare decimal.simps [simp del]

section \<open>The script detector classifies by what the text contains\<close>

lemma detect_loop_mixed:
  "(detect_loop isLatin d l cs = Mixed) =
     ((d \<or> (\<exists>c\<in>set cs. isDevanagari c)) \<and>
      (l \<or> (\<exists>c\<in>set cs. \<not> isDevanagari c \<and> isLatin c)) \<and> \<not> (d \<and> l \<and> cs = []))"
  by (induction cs arbitrary: d l) (auto simp: Let_def)

lemma detect_loop_devanagari:
  "(detect_loop isLatin d l cs = Devanagari) =
     ((d \<or> (\<exists>c\<in>set cs. isDevanagari c)) \<and>
      \<not> ((l \<or> (\<exists>c\<in>set cs. \<not> isDevanagari c \<and> isLatin c)) \<and> \<not> (d \<and> l \<and> cs = [])))"
  by (induction cs arbitrary: d l) (auto simp: Let_def)


text \<open>
  C5. With a Latin script that has no code point in the Devanagari block (as in Unicode),
  \<open>detect\<close> answers \<open>Mixed\<close> exactly for the texts that contain a Devanagari code point
  and a Latin one, \<open>Devanagari\<close> exactly for those that contain a Devanagari code point
  and no Latin one, and \<open>Iast\<close> exactly for those without a Devanagari code point, the
  empty text among them.
\<close>

theorem detect_classifies:
  assumes "\<forall>c. isLatin c \<longrightarrow> \<not> isDevanagari c"
  shows "((detect isLatin s = Mixed) =
            ((\<exists>c\<in>set (codePoints s). isDevanagari c) \<and> (\<exists>c\<in>set (codePoints s). isLatin c))) \<and>
         ((detect isLatin s = Devanagari) =
            ((\<exists>c\<in>set (codePoints s). isDevanagari c) \<and> \<not> (\<exists>c\<in>set (codePoints s). isLatin c))) \<and>
         ((detect isLatin s = Iast) = (\<not> (\<exists>c\<in>set (codePoints s). isDevanagari c))) \<and>
         detect isLatin [] = Iast"
proof -
  have lat: "(\<exists>c\<in>set cs. \<not> isDevanagari c \<and> isLatin c) = (\<exists>c\<in>set cs. isLatin c)" for cs
    using assms by blast
  have m: "(detect isLatin s = Mixed) =
            ((\<exists>c\<in>set (codePoints s). isDevanagari c) \<and> (\<exists>c\<in>set (codePoints s). isLatin c))"
    unfolding detect_def detect_loop_mixed lat by simp
  have d: "(detect isLatin s = Devanagari) =
            ((\<exists>c\<in>set (codePoints s). isDevanagari c) \<and> \<not> (\<exists>c\<in>set (codePoints s). isLatin c))"
    unfolding detect_def detect_loop_devanagari lat by simp
  have i: "(detect isLatin s = Iast) = (\<not> (\<exists>c\<in>set (codePoints s). isDevanagari c))"
    using m d by (cases "detect isLatin s") auto
  have e: "detect isLatin [] = Iast"
    by (simp add: detect_def)
  from m d i e show ?thesis by blast
qed

lemma example_isLatin_not_devanagari: "\<forall>c. example_isLatin c \<longrightarrow> \<not> isDevanagari c"
  by (auto simp: example_isLatin_def isDevanagari_def DEVANAGARI_RANGE_START_def
        DEVANAGARI_RANGE_END_def)

theorem detect_classifies_witness:
  "(\<exists>c\<in>set (codePoints [0x0915, 0x61]). isDevanagari c) \<and>
   (\<exists>c\<in>set (codePoints [0x0915, 0x61]). example_isLatin c) \<and>
   detect example_isLatin [0x0915, 0x61] = Mixed"
proof -
  have dev: "\<exists>c\<in>set (codePoints [0x0915, 0x61]). isDevanagari c"
    by (simp add: isDevanagari_def DEVANAGARI_RANGE_START_def DEVANAGARI_RANGE_END_def
          isLeadSurrogate_def)
  have lat: "\<exists>c\<in>set (codePoints [0x0915, 0x61]). example_isLatin c"
    by (simp add: example_isLatin_def isLeadSurrogate_def)
  from detect_classifies [OF example_isLatin_not_devanagari, of "[0x0915, 0x61]"] dev lat
  have "detect example_isLatin [0x0915, 0x61] = Mixed" by blast
  with dev lat show ?thesis by blast
qed

text \<open>
  C6. \<open>normalize\<close> is a total function of the text and follows the classification: a
  mixed text gives \<open>Failure\<close> with the fixed message, a Devanagari text gives \<open>Success\<close>
  with the converted text and \<open>Devanagari\<close>, every other text gives \<open>Success\<close> with the
  text itself, unchanged, and \<open>Iast\<close>.
\<close>

theorem normalize_cases:
  "(detect isLatin t = Mixed \<longrightarrow> normalize isLatin toIast t = Failure MIXED_SCRIPT_MESSAGE) \<and>
   (detect isLatin t = Devanagari \<longrightarrow>
      normalize isLatin toIast t = Success (toIast t) Devanagari) \<and>
   (detect isLatin t = Iast \<longrightarrow> normalize isLatin toIast t = Success t Iast)"
  by (simp add: normalize_def Let_def)

theorem normalize_cases_witness:
  "detect example_isLatin [0x0915, 0x61] = Mixed \<and>
   normalize example_isLatin example_toIast [0x0915, 0x61] = Failure MIXED_SCRIPT_MESSAGE \<and>
   detect example_isLatin [0x0915] = Devanagari \<and>
   normalize example_isLatin example_toIast [0x0915] = Success (js ''ka'') Devanagari \<and>
   detect example_isLatin (js ''om'') = Iast \<and>
   normalize example_isLatin example_toIast (js ''om'') = Success (js ''om'') Iast"
proof -
  have m: "detect example_isLatin [0x0915, 0x61] = Mixed"
    by (simp add: detect_def isDevanagari_def DEVANAGARI_RANGE_START_def
          DEVANAGARI_RANGE_END_def example_isLatin_def isLeadSurrogate_def)
  have d: "detect example_isLatin [0x0915] = Devanagari"
    by (simp add: detect_def isDevanagari_def DEVANAGARI_RANGE_START_def
          DEVANAGARI_RANGE_END_def)
  have i: "detect example_isLatin (js ''om'') = Iast"
    by (simp add: detect_def js_def isDevanagari_def DEVANAGARI_RANGE_START_def
          DEVANAGARI_RANGE_END_def example_isLatin_def isLeadSurrogate_def)
  from m d i
    normalize_cases [of example_isLatin "[0x0915, 0x61]" example_toIast]
    normalize_cases [of example_isLatin "[0x0915]" example_toIast]
    normalize_cases [of example_isLatin "js ''om''" example_toIast]
  show ?thesis by (simp add: example_toIast_def)
qed

section \<open>The hybrid service: order of the calls, fallback and merge\<close>

text \<open>
  C2. The dictionary is looked up only after \<open>translateSutra\<close> has answered, and with the
  words of that answer. When \<open>translateSutra\<close> rejects, \<open>translate\<close> rejects with the same
  error and \<open>translateSutra\<close> is the only call made: every \<open>lookupWords\<close> in the list of
  calls stands after the \<open>translateSutra\<close> call, which then has succeeded.
\<close>

theorem hybrid_llm_before_dictionary:
  "(\<forall>e. llmClient sutra = Inl e \<longrightarrow>
      HybridTranslationService_translate llmClient dictionaryClient sutra =
        (Inl e, [translateSutra sutra])) \<and>
   (\<forall>i ws. i < length (snd (HybridTranslationService_translate llmClient dictionaryClient sutra)) \<and>
       snd (HybridTranslationService_translate llmClient dictionaryClient sutra) ! i = lookupWords ws \<longrightarrow>
       (\<exists>llmResponse. llmClient sutra = Inr llmResponse \<and> ws = map word (llm_words llmResponse) \<and>
          0 < i \<and>
          snd (HybridTranslationService_translate llmClient dictionaryClient sutra) ! 0 =
            translateSutra sutra))"
  by (auto simp: HybridTranslationService_translate_def Let_def nth_Cons'
        split: sum.splits if_splits)

theorem hybrid_llm_before_dictionary_witness:
  "FailingLlmClient (js ''om'') = Inl (Error (js ''LLM service unavailable'')) \<and>
   HybridTranslationService_translate FailingLlmClient example_dictionaryClient (js ''om'') =
     (Inl (Error (js ''LLM service unavailable'')), [translateSutra (js ''om'')])"
proof -
  have f: "FailingLlmClient (js ''om'') = Inl (Error (js ''LLM service unavailable''))"
    by (simp add: FailingLlmClient_def)
  from hybrid_llm_before_dictionary [of FailingLlmClient "js ''om''" example_dictionaryClient]
  have "\<forall>e. FailingLlmClient (js ''om'') = Inl e \<longrightarrow>
      HybridTranslationService_translate FailingLlmClient example_dictionaryClient (js ''om'') =
        (Inl e, [translateSutra (js ''om'')])"
    by (rule conjunct1)
  with f have
    "HybridTranslationService_translate FailingLlmClient example_dictionaryClient (js ''om'') =
       (Inl (Error (js ''LLM service unavailable'')), [translateSutra (js ''om'')])"
    by (elim allE impE)
  with f show ?thesis by (intro conjI)
qed

text \<open>
  C1, counterexample. The model answers with one entry and the dictionary rejects: the
  entry of the result has \<open>dictionaryDefinitions\<close> set, to the empty list.
\<close>

theorem hybrid_dictionary_failure_counterexample:
  "HybridTranslationService_translate example_llmClient FailingDictionaryClient (js ''om'') =
     (Inr \<lparr>originalText = [js ''om''], iastText = [js ''om''],
           words = [example_entry\<lparr>dictionaryDefinitions := Some []\<rparr>],
           alternativeTranslations = Some [js ''Om''],
           warnings = Some [DICTIONARY_WARNING]\<rparr>,
      [translateSutra (js ''om''), lookupWords [js ''om'']])"
  by (simp add: HybridTranslationService_translate_def example_llmClient_def
        example_response_def FailingDictionaryClient_def example_entry_def js_def trim_def
        isWhiteSpace_def)

text \<open>
  C1, as the code has it. When \<open>translateSutra\<close> succeeds and \<open>lookupWords\<close> rejects,
  nothing of a lookup is merged, but the merge step still runs, on an empty map: every
  entry of the result is the model's entry with \<open>dictionaryDefinitions\<close> set to the empty
  list. The field is present, not left unset.
\<close>

theorem hybrid_dictionary_failure_empty_definitions:
  assumes "llmClient sutra = Inr llmResponse"
    and "dictionaryClient (map word (llm_words llmResponse)) = Inl e"
  shows "\<exists>result.
           fst (HybridTranslationService_translate llmClient dictionaryClient sutra) = Inr result \<and>
           words result =
             map (\<lambda>w. w\<lparr>dictionaryDefinitions := Some []\<rparr>) (llm_words llmResponse) \<and>
           (\<forall>w\<in>set (words result). dictionaryDefinitions w = Some [])"
  using assms by (simp add: HybridTranslationService_translate_def Let_def)

theorem hybrid_dictionary_failure_empty_definitions_witness:
  "example_llmClient (js ''om'') = Inr example_response \<and>
   FailingDictionaryClient (map word (llm_words example_response)) =
     Inl (Error (js ''Dictionary API unavailable'')) \<and>
   (\<exists>result.
      fst (HybridTranslationService_translate example_llmClient FailingDictionaryClient (js ''om'')) =
        Inr result \<and>
      map dictionaryDefinitions (words result) = [Some []])"
proof -
  have a: "example_llmClient (js ''om'') = Inr example_response"
    by (simp add: example_llmClient_def)
  have b: "FailingDictionaryClient (map word (llm_words example_response)) =
             Inl (Error (js ''Dictionary API unavailable''))"
    by (simp add: FailingDictionaryClient_def)
  from hybrid_dictionary_failure_empty_definitions
      [where llmClient = example_llmClient and dictionaryClient = FailingDictionaryClient, OF a b]
  obtain result where
    r: "fst (HybridTranslationService_translate example_llmClient FailingDictionaryClient (js ''om'')) =
          Inr result"
       "words result = map (\<lambda>w. w\<lparr>dictionaryDefinitions := Some []\<rparr>) (llm_words example_response)"
    by blast
  from r(2) have d: "map dictionaryDefinitions (words result) = [Some []]"
    by (simp add: example_response_def)
  from r(1) d have
    "\<exists>result.
       fst (HybridTranslationService_translate example_llmClient FailingDictionaryClient (js ''om'')) =
         Inr result \<and>
       map dictionaryDefinitions (words result) = [Some []]"
    by (intro exI [of _ result] conjI)
  with a b show ?thesis by (intro conjI)
qed

text \<open>
  C3. In every result of the hybrid service, \<open>warnings\<close> is set exactly when \<open>lookupWords\<close>
  rejected. When set it is the one-element list with the fixed message, which names the
  dictionary and says \<open>LLM-only\<close>; otherwise the field is unset, never the empty list.
\<close>

theorem hybrid_warnings_iff_degraded:
  assumes "fst (HybridTranslationService_translate llmClient dictionaryClient sutra) = Inr result"
  shows "\<exists>llmResponse. llmClient sutra = Inr llmResponse \<and>
           (warnings result \<noteq> None) = isl (dictionaryClient (map word (llm_words llmResponse))) \<and>
           (warnings result = None \<or> warnings result = Some [DICTIONARY_WARNING]) \<and>
           warnings result \<noteq> Some [] \<and>
           includes_str DICTIONARY_WARNING (js ''Dictionary'') \<and>
           includes_str DICTIONARY_WARNING (js ''LLM-only'')"
proof -
  have a: "includes_str DICTIONARY_WARNING (js ''Dictionary'')"
    by (simp add: DICTIONARY_WARNING_def js_def)
  have b: "includes_str DICTIONARY_WARNING (js ''LLM-only'')"
    by (simp add: DICTIONARY_WARNING_def js_def)
  from assms a b show ?thesis
    by (auto simp: HybridTranslationService_translate_def Let_def split: sum.splits)
qed

theorem hybrid_warnings_iff_degraded_witness:
  "(\<exists>result.
      fst (HybridTranslationService_translate example_llmClient example_dictionaryClient (js ''om'')) =
        Inr result \<and> warnings result = None) \<and>
   (\<exists>result.
      fst (HybridTranslationService_translate example_llmClient FailingDictionaryClient (js ''om'')) =
        Inr result \<and> warnings result = Some [DICTIONARY_WARNING])"
proof -
  obtain r1 where r1:
    "fst (HybridTranslationService_translate example_llmClient example_dictionaryClient (js ''om'')) =
       Inr r1"
    by (simp add: HybridTranslationService_translate_def example_llmClient_def
          example_dictionaryClient_def Let_def)
  obtain r2 where r2:
    "fst (HybridTranslationService_translate example_llmClient FailingDictionaryClient (js ''om'')) =
       Inr r2"
    by (simp add: HybridTranslationService_translate_def example_llmClient_def
          FailingDictionaryClient_def Let_def)
  from hybrid_warnings_iff_degraded
      [where llmClient = example_llmClient and dictionaryClient = example_dictionaryClient, OF r1]
  have w1: "warnings r1 = None"
    by (auto simp: example_llmClient_def example_dictionaryClient_def)
  from hybrid_warnings_iff_degraded
      [where llmClient = example_llmClient and dictionaryClient = FailingDictionaryClient, OF r2]
  have w2: "warnings r2 = Some [DICTIONARY_WARNING]"
    by (auto simp: example_llmClient_def FailingDictionaryClient_def)
  from r1 w1 have e1:
    "\<exists>result.
      fst (HybridTranslationService_translate example_llmClient example_dictionaryClient (js ''om'')) =
        Inr result \<and> warnings result = None"
    by (intro exI [of _ r1] conjI)
  from r2 w2 have e2:
    "\<exists>result.
      fst (HybridTranslationService_translate example_llmClient FailingDictionaryClient (js ''om'')) =
        Inr result \<and> warnings result = Some [DICTIONARY_WARNING]"
    by (intro exI [of _ r2] conjI)
  from e1 e2 show ?thesis by (intro conjI)
qed

text \<open>
  C10. When both calls succeed, the result has one entry for each entry of the model, in
  the same order: the model's entry with \<open>dictionaryDefinitions\<close> set to what the lookup
  map holds for the entry's own \<open>word\<close>, or to the empty list when the map has nothing for
  it. Two entries with the same \<open>word\<close> therefore carry the same definitions.
\<close>

theorem hybrid_merge:
  assumes "llmClient sutra = Inr llmResponse"
    and "dictionaryClient (map word (llm_words llmResponse)) = Inr dictResults"
  shows "\<exists>result.
           fst (HybridTranslationService_translate llmClient dictionaryClient sutra) = Inr result \<and>
           length (words result) = length (llm_words llmResponse) \<and>
           (\<forall>i < length (llm_words llmResponse).
              words result ! i = (llm_words llmResponse ! i)\<lparr>dictionaryDefinitions :=
                Some (case dictResults (word (llm_words llmResponse ! i)) of
                        Some ds \<Rightarrow> ds | None \<Rightarrow> [])\<rparr>) \<and>
           (\<forall>i < length (words result). \<forall>j < length (words result).
              word (words result ! i) = word (words result ! j) \<longrightarrow>
              dictionaryDefinitions (words result ! i) = dictionaryDefinitions (words result ! j))"
  using assms by (simp add: HybridTranslationService_translate_def Let_def)

theorem hybrid_merge_witness:
  "example_llmClient (js ''om'') = Inr example_response \<and>
   example_dictionaryClient (map word (llm_words example_response)) = Inr example_dictResults \<and>
   (\<exists>result.
      fst (HybridTranslationService_translate example_llmClient example_dictionaryClient (js ''om'')) =
        Inr result \<and>
      words result = [example_entry\<lparr>dictionaryDefinitions := Some example_definitions\<rparr>])"
proof -
  have a: "example_llmClient (js ''om'') = Inr example_response"
    by (simp add: example_llmClient_def)
  have b: "example_dictionaryClient (map word (llm_words example_response)) = Inr example_dictResults"
    by (simp add: example_dictionaryClient_def)
  from hybrid_merge [where llmClient = example_llmClient and dictionaryClient = example_dictionaryClient,
      OF a b]
  obtain result where
    r: "fst (HybridTranslationService_translate example_llmClient example_dictionaryClient (js ''om'')) =
          Inr result"
       "length (words result) = length (llm_words example_response)"
       "\<forall>i < length (llm_words example_response).
              words result ! i = (llm_words example_response ! i)\<lparr>dictionaryDefinitions :=
                Some (case example_dictResults (word (llm_words example_response ! i)) of
                        Some ds \<Rightarrow> ds | None \<Rightarrow> [])\<rparr>"
    by blast
  from r(2) have l: "length (words result) = 1"
    by (simp add: example_response_def)
  from r(3) have "words result ! 0 = example_entry\<lparr>dictionaryDefinitions := Some example_definitions\<rparr>"
    by (simp add: example_response_def example_dictResults_def example_entry_def)
  with l have w: "words result = [example_entry\<lparr>dictionaryDefinitions := Some example_definitions\<rparr>]"
    by (cases "words result") auto
  from r(1) w have
    "\<exists>result.
      fst (HybridTranslationService_translate example_llmClient example_dictionaryClient (js ''om'')) =
        Inr result \<and>
      words result = [example_entry\<lparr>dictionaryDefinitions := Some example_definitions\<rparr>]"
    by (intro exI [of _ result] conjI)
  with a b show ?thesis by (intro conjI)
qed

section \<open>The normalizing service: input errors and the two texts\<close>

text \<open>
  C7. When the normalization fails, \<open>translate\<close> throws a \<open>TranslationError\<close> with the
  normalizer's message before it reaches its delegate: the outcome is that error and the
  list of collaborator calls is empty, whatever the delegate is.
\<close>

theorem normalizing_failure_no_calls:
  assumes "normalize isLatin toIast sutra = Failure err"
  shows "NormalizingTranslationService_translate isLatin toIast delegate sutra =
           (Inl (TranslationError err), [])"
  using assms by (simp add: NormalizingTranslationService_translate_def)

theorem normalizing_failure_no_calls_witness:
  "normalize example_isLatin example_toIast [0x0915, 0x61] = Failure MIXED_SCRIPT_MESSAGE \<and>
   NormalizingTranslationService_translate example_isLatin example_toIast
     (HybridTranslationService_translate example_llmClient example_dictionaryClient) [0x0915, 0x61] =
     (Inl (TranslationError MIXED_SCRIPT_MESSAGE), [])"
proof -
  have n: "normalize example_isLatin example_toIast [0x0915, 0x61] = Failure MIXED_SCRIPT_MESSAGE"
    by (simp add: normalize_def detect_def isDevanagari_def DEVANAGARI_RANGE_START_def
          DEVANAGARI_RANGE_END_def example_isLatin_def isLeadSurrogate_def)
  from normalizing_failure_no_calls [OF n] n show ?thesis by (intro conjI)
qed

lemma split_no_sep: "sep \<notin> set l \<Longrightarrow> split sep l = [l]"
  by (induction l) auto

lemma split_append: "sep \<notin> set l \<Longrightarrow> split sep (l @ sep # rest) = l # split sep rest"
  by (induction l) auto

lemma two_lines:
  "0x000A \<notin> set l1 \<Longrightarrow> 0x000A \<notin> set l2 \<Longrightarrow> trim l1 \<noteq> [] \<Longrightarrow> trim l2 \<noteq> [] \<Longrightarrow>
   filter (\<lambda>line. length (trim line) > 0) (split 0x000A (l1 @ [0x000A] @ l2)) = [l1, l2]"
  by (simp add: split_append split_no_sep)

lemma detect_space_om: "detect example_isLatin (js '' om'') = Iast"
  by (simp add: detect_def js_def isDevanagari_def DEVANAGARI_RANGE_START_def
        DEVANAGARI_RANGE_END_def example_isLatin_def isLeadSurrogate_def)

lemma detect_two_lines: "detect example_isLatin example_two_lines = Iast"
  by (simp add: example_two_lines_def detect_def js_def isDevanagari_def
        DEVANAGARI_RANGE_START_def DEVANAGARI_RANGE_END_def example_isLatin_def
        isLeadSurrogate_def)

text \<open>
  C9, counterexample. For the one-line input \<open>om\<close> with a leading space, the element
  of \<open>originalText\<close> and of \<open>iastText\<close> is the line with its space: it is not trimmed.
\<close>

theorem normalizing_untrimmed_line_counterexample:
  "fst (NormalizingTranslationService_translate example_isLatin example_toIast
         (HybridTranslationService_translate example_llmClient example_dictionaryClient)
         (js '' om'')) =
     Inr \<lparr>originalText = [js '' om''], iastText = [js '' om''],
          words = [example_entry\<lparr>dictionaryDefinitions := Some example_definitions\<rparr>],
          alternativeTranslations = Some [js ''Om''], warnings = None\<rparr> \<and>
   trim (js '' om'') = js ''om''"
proof -
  have n: "normalize example_isLatin example_toIast (js '' om'') = Success (js '' om'') Iast"
    by (simp add: normalize_def detect_space_om)
  have t: "trim (js '' om'') = js ''om''"
    by (simp add: trim_def js_def isWhiteSpace_def)
  have s: "split 0x000A (js '' om'') = [js '' om'']"
    by (simp add: js_def)
  have w: "map word (llm_words example_response) = [js ''om'']"
    by (simp add: example_response_def example_entry_def)
  have ne: "js ''om'' \<noteq> []"
    by (simp add: js_def)
  show ?thesis
    by (simp add: NormalizingTranslationService_translate_def n
          HybridTranslationService_translate_def example_llmClient_def
          example_dictionaryClient_def s t w ne Let_def example_response_def
          example_dictResults_def example_entry_def)
qed

text \<open>
  C9, as the code has it. The filter tests the trimmed line but keeps the line itself:
  \<open>originalText\<close> and \<open>iastText\<close> are the pieces of the raw and of the normalized text
  between line feeds, in order, without the pieces that are empty after trimming, and
  each kept piece is the line as it stands in the text, with its surrounding white space.
  A text of two non-blank lines gives the two lines.
\<close>

theorem normalizing_text_lines:
  assumes "fst (NormalizingTranslationService_translate isLatin toIast delegate sutra) = Inr result"
  shows "\<exists>normalized script. normalize isLatin toIast sutra = Success normalized script \<and>
     originalText result = normalizeToLines sutra \<and>
     iastText result = normalizeToLines normalized \<and>
     originalText result = filter (\<lambda>line. trim line \<noteq> []) (split 0x000A sutra) \<and>
     iastText result = filter (\<lambda>line. trim line \<noteq> []) (split 0x000A normalized) \<and>
     (\<forall>line \<in> set (originalText result). line \<in> set (split 0x000A sutra) \<and> trim line \<noteq> []) \<and>
     (\<forall>line \<in> set (iastText result). line \<in> set (split 0x000A normalized) \<and> trim line \<noteq> []) \<and>
     subseq (originalText result) (split 0x000A sutra) \<and>
     subseq (iastText result) (split 0x000A normalized) \<and>
     (\<forall>l1 l2. sutra = l1 @ [0x000A] @ l2 \<and> 0x000A \<notin> set l1 \<and> 0x000A \<notin> set l2 \<and>
        trim l1 \<noteq> [] \<and> trim l2 \<noteq> [] \<longrightarrow> originalText result = [l1, l2]) \<and>
     (\<forall>l1 l2. normalized = l1 @ [0x000A] @ l2 \<and> 0x000A \<notin> set l1 \<and> 0x000A \<notin> set l2 \<and>
        trim l1 \<noteq> [] \<and> trim l2 \<noteq> [] \<longrightarrow> iastText result = [l1, l2])"
proof (cases "normalize isLatin toIast sutra")
  case (Failure err)
  with assms show ?thesis by (simp add: NormalizingTranslationService_translate_def)
next
  case (Success normalized script)
  from assms Success obtain r0 where
    r: "result = r0\<lparr>originalText := filter (\<lambda>line. length (trim line) > 0) (split 0x000A sutra),
                     iastText := filter (\<lambda>line. length (trim line) > 0) (split 0x000A normalized)\<rparr>"
    by (auto simp: NormalizingTranslationService_translate_def split: prod.splits sum.splits)
  have on: "originalText result = normalizeToLines sutra"
    by (simp add: r normalizeToLines_def)
  have inn: "iastText result = normalizeToLines normalized"
    by (simp add: r normalizeToLines_def)
  have o: "originalText result = filter (\<lambda>line. trim line \<noteq> []) (split 0x000A sutra)"
    by (simp add: r)
  have i: "iastText result = filter (\<lambda>line. trim line \<noteq> []) (split 0x000A normalized)"
    by (simp add: r)
  have o2: "\<forall>l1 l2. sutra = l1 @ [0x000A] @ l2 \<and> 0x000A \<notin> set l1 \<and> 0x000A \<notin> set l2 \<and>
        trim l1 \<noteq> [] \<and> trim l2 \<noteq> [] \<longrightarrow> originalText result = [l1, l2]"
    using two_lines by (auto simp: o)
  have i2: "\<forall>l1 l2. normalized = l1 @ [0x000A] @ l2 \<and> 0x000A \<notin> set l1 \<and> 0x000A \<notin> set l2 \<and>
        trim l1 \<noteq> [] \<and> trim l2 \<noteq> [] \<longrightarrow> iastText result = [l1, l2]"
    using two_lines by (auto simp: i)
  have so: "subseq (originalText result) (split 0x000A sutra)"
    unfolding o by simp
  have si: "subseq (iastText result) (split 0x000A normalized)"
    unfolding i by simp
  have mo: "\<forall>line \<in> set (originalText result). line \<in> set (split 0x000A sutra) \<and> trim line \<noteq> []"
    unfolding o by simp
  have mi: "\<forall>line \<in> set (iastText result). line \<in> set (split 0x000A normalized) \<and> trim line \<noteq> []"
    unfolding i by simp
  show ?thesis
    by (intro exI [of _ normalized] exI [of _ script] conjI)
       (rule Success on inn o i mo mi so si o2 i2)+
qed

theorem normalizing_text_lines_witness:
  "\<exists>result.
     fst (NormalizingTranslationService_translate example_isLatin example_toIast
           (HybridTranslationService_translate example_llmClient example_dictionaryClient)
           example_two_lines) = Inr result \<and>
     originalText result = [js ''om'', js ''tat''] \<and>
     iastText result = [js ''om'', js ''tat'']"
proof -
  have n: "normalize example_isLatin example_toIast example_two_lines =
             Success example_two_lines Iast"
    by (simp add: normalize_def detect_two_lines)
  obtain result where r:
    "fst (NormalizingTranslationService_translate example_isLatin example_toIast
           (HybridTranslationService_translate example_llmClient example_dictionaryClient)
           example_two_lines) = Inr result"
    by (simp add: NormalizingTranslationService_translate_def n
          HybridTranslationService_translate_def example_llmClient_def
          example_dictionaryClient_def Let_def)
  have f: "filter (\<lambda>line. trim line \<noteq> []) (split 0x000A example_two_lines) =
             [js ''om'', js ''tat'']"
    by (simp add: example_two_lines_def js_def trim_def isWhiteSpace_def)
  from normalizing_text_lines [OF r] have
    "\<exists>normalized script.
       normalize example_isLatin example_toIast example_two_lines = Success normalized script \<and>
       originalText result = filter (\<lambda>line. trim line \<noteq> []) (split 0x000A example_two_lines) \<and>
       iastText result = filter (\<lambda>line. trim line \<noteq> []) (split 0x000A normalized)"
    by (elim exE conjE) (intro exI conjI, assumption+)
  then obtain normalized script where
    nn: "normalize example_isLatin example_toIast example_two_lines = Success normalized script"
    and o: "originalText result = filter (\<lambda>line. trim line \<noteq> []) (split 0x000A example_two_lines)"
    and i: "iastText result = filter (\<lambda>line. trim line \<noteq> []) (split 0x000A normalized)"
    by (elim exE conjE)
  from nn n have "normalized = example_two_lines" by simp
  with o i f have
    "originalText result = [js ''om'', js ''tat''] \<and> iastText result = [js ''om'', js ''tat'']"
    by simp
  with r show ?thesis by (intro exI [of _ result] conjI) simp_all
qed

section \<open>The parser of the model's reply\<close>

lemma no_fence: "0x60 \<notin> set t \<Longrightarrow> afterFirst FENCE t = None"
  by (induction t) (auto simp: FENCE_def)

lemma dropWhile_hd: "t \<noteq> [] \<Longrightarrow> \<not> P (hd t) \<Longrightarrow> dropWhile P t = t"
  by (cases t) auto

lemma trim_id:
  assumes "t \<noteq> []" and "\<not> isWhiteSpace (hd t)" and "\<not> isWhiteSpace (last t)"
  shows "trim t = t"
proof -
  have a: "dropWhile isWhiteSpace t = t"
    using assms(1,2) by (rule dropWhile_hd)
  have b: "dropWhile isWhiteSpace (rev t) = rev t"
    using assms(1,3) by (intro dropWhile_hd) (simp_all add: hd_rev)
  show ?thesis by (simp add: trim_def a b)
qed

lemma extract_toString: "extractJson REPLY_TOSTRING = REPLY_TOSTRING"
proof -
  have a: "afterFirst FENCE REPLY_TOSTRING = None"
    by (rule no_fence) (simp add: REPLY_TOSTRING_def js_def)
  have b: "trim REPLY_TOSTRING = REPLY_TOSTRING"
    by (rule trim_id) (simp_all add: REPLY_TOSTRING_def js_def isWhiteSpace_def)
  show ?thesis by (simp add: extractJson_def a b)
qed

lemma parse_toString: "example_JSON_parse REPLY_TOSTRING = Some parsed_toString"
  by (simp add: example_JSON_parse_def REPLY_TOSTRING_def REPLY_WITH_NOTE_def js_def)

lemma map_throwing_Inr:
  "map_throwing f xs = Inr ys \<Longrightarrow>
     length ys = length xs \<and> (\<forall>i < length xs. f (xs ! i) = Inr (ys ! i))"
proof (induction xs arbitrary: ys)
  case Nil
  then show ?case by simp
next
  case (Cons x xs)
  then show ?case
    by (auto simp: nth_Cons' split: sum.splits)
qed

lemma map_throwing_ToString:
  "map_throwing (\<lambda>m. case ToString N m of None \<Rightarrow> Inl TypeError | Some t \<Rightarrow> Inr t) ms = Inr ts \<Longrightarrow>
   map (ToString N) ms = map Some ts"
proof (induction ms arbitrary: ts)
  case Nil
  then show ?case by simp
next
  case (Cons m ms)
  then show ?case
    by (auto split: sum.splits option.splits)
qed

lemma validateWordEntry_Inr:
  assumes "validateWordEntry N entry = Inr w"
  shows "\<exists>e e_word e_grammaticalForm e_meanings.
        entry = JObject e \<and> map_of e (js ''word'') = Some e_word \<and>
        map_of e (js ''grammaticalForm'') = Some e_grammaticalForm \<and>
        map_of e (js ''meanings'') = Some e_meanings \<and>
        ToString N e_word = Some (word w) \<and>
        ToString N e_grammaticalForm = grammaticalForm w \<and>
        map Some (meanings w) =
          (case e_meanings of
             JArray ms \<Rightarrow> map (ToString N) ms
           | _ \<Rightarrow> [ToString N e_meanings]) \<and>
        dictionaryDefinitions w = None \<and> contextualNote w = None"
proof -
  from assms obtain e where e: "entry = JObject e"
    by (cases entry) (simp_all add: validateWordEntry_def)
  from assms e obtain e_word e_grammaticalForm e_meanings where
    k: "map_of e (js ''word'') = Some e_word"
       "map_of e (js ''grammaticalForm'') = Some e_grammaticalForm"
       "map_of e (js ''meanings'') = Some e_meanings"
    by (auto simp: validateWordEntry_def split: option.splits)
  from assms e k obtain wd g where
    s: "ToString N e_word = Some wd" "ToString N e_grammaticalForm = Some g"
    by (auto simp: validateWordEntry_def split: option.splits)
  define coerced where
    "coerced = (case e_meanings of
        JArray ms \<Rightarrow>
          map_throwing (\<lambda>m. case ToString N m of None \<Rightarrow> Inl TypeError | Some t \<Rightarrow> Inr t) ms
      | _ \<Rightarrow> (case ToString N e_meanings of None \<Rightarrow> Inl TypeError | Some t \<Rightarrow> Inr [t]))"
  from assms e k s have v: "(case coerced of Inl err \<Rightarrow> Inl err
      | Inr ms \<Rightarrow> Inr \<lparr>word = wd, grammaticalForm = Some g, meanings = ms,
                        dictionaryDefinitions = None, contextualNote = None\<rparr>) = Inr w"
    by (simp add: validateWordEntry_def coerced_def)
  then obtain ms where ms: "coerced = Inr ms"
    and w: "w = \<lparr>word = wd, grammaticalForm = Some g, meanings = ms,
                   dictionaryDefinitions = None, contextualNote = None\<rparr>"
    by (cases coerced) auto
  have m: "map Some ms =
          (case e_meanings of
             JArray xs \<Rightarrow> map (ToString N) xs
           | _ \<Rightarrow> [ToString N e_meanings])"
  proof (cases e_meanings)
    case (JArray xs)
    with ms have "map_throwing (\<lambda>m. case ToString N m of None \<Rightarrow> Inl TypeError | Some t \<Rightarrow> Inr t) xs = Inr ms"
      by (simp add: coerced_def)
    from map_throwing_ToString [OF this] JArray show ?thesis by simp
  qed (use ms in \<open>auto simp: coerced_def split: option.splits\<close>)
  from e k s w m show ?thesis by simp
qed


lemma map_throwing_Inl:
  "map_throwing f xs = Inl e \<Longrightarrow>
     \<exists>i < length xs. f (xs ! i) = Inl e \<and> (\<forall>j < i. \<exists>y. f (xs ! j) = Inr y)"
proof (induction xs)
  case Nil
  then show ?case by simp
next
  case (Cons x xs)
  show ?case
  proof (cases "f x")
    case (Inl e')
    with Cons.prems have "e' = e" by simp
    with Inl have "f ((x # xs) ! 0) = Inl e \<and> (\<forall>j < 0. \<exists>y. f ((x # xs) ! j) = Inr y)" by simp
    then show ?thesis by blast
  next
    case (Inr y)
    with Cons.prems have "map_throwing f xs = Inl e" by (simp split: sum.splits)
    from Cons.IH [OF this] obtain i where i: "i < length xs" "f (xs ! i) = Inl e"
      "\<forall>j < i. \<exists>y. f (xs ! j) = Inr y" by blast
    have "\<forall>j < Suc i. \<exists>y. f ((x # xs) ! j) = Inr y"
    proof (intro allI impI)
      fix j assume "j < Suc i"
      then show "\<exists>y. f ((x # xs) ! j) = Inr y"
        using Inr i(3) by (cases j) auto
    qed
    with i(1,2) have "Suc i < length (x # xs) \<and> f ((x # xs) ! Suc i) = Inl e \<and>
        (\<forall>j < Suc i. \<exists>y. f ((x # xs) ! j) = Inr y)" by simp
    then show ?thesis by blast
  qed
qed

lemma map_throwing_first_failure:
  "i < length xs \<Longrightarrow> f (xs ! i) = Inl e \<Longrightarrow> (\<forall>j < i. \<exists>y. f (xs ! j) = Inr y) \<Longrightarrow>
     map_throwing f xs = Inl e"
proof (induction xs arbitrary: i)
  case Nil
  then show ?case by simp
next
  case (Cons x xs)
  show ?case
  proof (cases i)
    case 0
    with Cons.prems show ?thesis by simp
  next
    case (Suc k)
    from Cons.prems(3) Suc obtain y where y: "f x = Inr y" by fastforce
    have "\<forall>j < k. \<exists>y. f (xs ! j) = Inr y"
    proof (intro allI impI)
      fix j assume "j < k"
      then have "Suc j < i" using Suc by simp
      with Cons.prems(3) show "\<exists>y. f (xs ! j) = Inr y" by fastforce
    qed
    with Cons.IH [of k] Cons.prems Suc have "map_throwing f xs = Inl e" by simp
    with y show ?thesis by simp
  qed
qed

lemma messages_distinct:
  "distinct [EMPTY_RESPONSE, PARSE_FAILURE, INVALID_STRUCTURE, INVALID_ENTRY]"
  by (simp add: EMPTY_RESPONSE_def PARSE_FAILURE_def INVALID_STRUCTURE_def INVALID_ENTRY_def js_def)

lemma invalid_structure_fragment:
  "includes_str INVALID_STRUCTURE (js ''missing words array'')"
  by (simp add: INVALID_STRUCTURE_def js_def)

lemma validateWordEntry_missing:
  "(\<forall>e. entry = JObject e \<longrightarrow> map_of e (js ''word'') = None \<or>
        map_of e (js ''grammaticalForm'') = None \<or> map_of e (js ''meanings'') = None) \<Longrightarrow>
   validateWordEntry N entry = Inl (ClaudeLlmError INVALID_ENTRY)"
  by (auto simp: validateWordEntry_def split: json.splits option.splits)

lemma validateWordEntry_Inl:
  assumes "validateWordEntry N entry = Inl err"
  shows "err = ClaudeLlmError INVALID_ENTRY \<or>
     (err = TypeError \<and>
      (\<exists>e e_word e_grammaticalForm e_meanings.
        entry = JObject e \<and> map_of e (js ''word'') = Some e_word \<and>
        map_of e (js ''grammaticalForm'') = Some e_grammaticalForm \<and>
        map_of e (js ''meanings'') = Some e_meanings \<and>
        (ToString N e_word = None \<or> ToString N e_grammaticalForm = None \<or>
         (case e_meanings of
            JArray ms \<Rightarrow> \<exists>m\<in>set ms. ToString N m = None
          | _ \<Rightarrow> ToString N e_meanings = None))))"
proof (cases "\<forall>e. entry = JObject e \<longrightarrow> map_of e (js ''word'') = None \<or>
        map_of e (js ''grammaticalForm'') = None \<or> map_of e (js ''meanings'') = None")
  case True
  from validateWordEntry_missing [OF this, of N] assms show ?thesis by simp
next
  case False
  then obtain e e_word e_grammaticalForm e_meanings where
    k: "entry = JObject e" "map_of e (js ''word'') = Some e_word"
       "map_of e (js ''grammaticalForm'') = Some e_grammaticalForm"
       "map_of e (js ''meanings'') = Some e_meanings"
    by auto
  define coerced where
    "coerced = (case e_meanings of
        JArray ms \<Rightarrow>
          map_throwing (\<lambda>m. case ToString N m of None \<Rightarrow> Inl TypeError | Some t \<Rightarrow> Inr t) ms
      | _ \<Rightarrow> (case ToString N e_meanings of None \<Rightarrow> Inl TypeError | Some t \<Rightarrow> Inr [t]))"
  have c: "err = TypeError \<and> (case e_meanings of
            JArray ms \<Rightarrow> \<exists>m\<in>set ms. ToString N m = None
          | _ \<Rightarrow> ToString N e_meanings = None)" if "coerced = Inl err"
  proof (cases e_meanings)
    case (JArray ms)
    with that have "map_throwing (\<lambda>m. case ToString N m of None \<Rightarrow> Inl TypeError | Some t \<Rightarrow> Inr t) ms = Inl err"
      by (simp add: coerced_def)
    from map_throwing_Inl [OF this] obtain i where "i < length ms"
      "(case ToString N (ms ! i) of None \<Rightarrow> Inl TypeError | Some t \<Rightarrow> Inr t) = Inl err" by blast
    then have "ms ! i \<in> set ms \<and> ToString N (ms ! i) = None \<and> err = TypeError"
      by (auto split: option.splits)
    with JArray show ?thesis by auto
  qed (use that in \<open>auto simp: coerced_def split: option.splits if_splits\<close>)
  show ?thesis
  proof (cases "ToString N e_word")
    case None
    with assms k show ?thesis by (auto simp: validateWordEntry_def)
  next
    case w: (Some wd)
    show ?thesis
    proof (cases "ToString N e_grammaticalForm")
      case None
      with assms k w show ?thesis by (auto simp: validateWordEntry_def)
    next
      case g: (Some gf)
      from assms k w g have "(case coerced of Inl err \<Rightarrow> Inl err
        | Inr ms \<Rightarrow> Inr \<lparr>word = wd, grammaticalForm = Some gf, meanings = ms,
                        dictionaryDefinitions = None, contextualNote = None\<rparr>) = Inl err"
        by (simp add: validateWordEntry_def coerced_def)
      then have "coerced = Inl err" by (cases coerced) auto
      from c [OF this] k show ?thesis by auto
    qed
  qed
qed

lemma validateResponse_invalid:
  "\<not> (\<exists>props ws. parsed = JObject props \<and> map_of props (js ''words'') = Some (JArray ws)) \<Longrightarrow>
   validateResponse N parsed = Inl (ClaudeLlmError INVALID_STRUCTURE)"
  by (auto simp: validateResponse_def isValidResponse_def split: json.splits option.splits)

lemma validateResponse_valid:
  "parsed = JObject props \<Longrightarrow> map_of props (js ''words'') = Some (JArray ws) \<Longrightarrow>
   validateResponse N parsed =
     (case map_throwing (validateWordEntry N) ws of
        Inl err \<Rightarrow> Inl err
      | Inr entries \<Rightarrow> Inr \<lparr>llm_words = entries, llm_alternativeTranslations = None\<rparr>)"
  by (simp add: validateResponse_def isValidResponse_def)

lemma parseResponse_no_text:
  "content response = None \<or> (\<exists>blocks. content response = Some blocks \<and> find is_text blocks = None) \<Longrightarrow>
   parseResponse P N response = Inl (ClaudeLlmError EMPTY_RESPONSE)"
  by (auto simp: parseResponse_def)

lemma find_is_text:
  "find is_text blocks = Some b \<Longrightarrow> \<exists>payload. b = TextBlock payload"
  by (cases b) (auto simp: find_Some_iff is_text_def)

lemma parseResponse_text:
  "content response = Some blocks \<Longrightarrow> find is_text blocks = Some (TextBlock payload) \<Longrightarrow>
   parseResponse P N response =
     (case P (extractJson payload) of
        None \<Rightarrow> Inl (ClaudeLlmError PARSE_FAILURE)
      | Some parsed \<Rightarrow> validateResponse N parsed)"
  by (auto simp: parseResponse_def parseJson_def split: option.splits)

lemma parseResponse_stages:
  "(content response = None \<or> (\<exists>blocks. content response = Some blocks \<and> find is_text blocks = None)) \<or>
   (\<exists>blocks payload. content response = Some blocks \<and> find is_text blocks = Some (TextBlock payload) \<and>
      (P (extractJson payload) = None \<or>
       (\<exists>parsed. P (extractJson payload) = Some parsed \<and>
          (\<not> (\<exists>props ws. parsed = JObject props \<and> map_of props (js ''words'') = Some (JArray ws)) \<or>
           (\<exists>props ws. parsed = JObject props \<and> map_of props (js ''words'') = Some (JArray ws))))))"
proof (cases "content response = None \<or> (\<exists>blocks. content response = Some blocks \<and> find is_text blocks = None)")
  case True
  then show ?thesis by blast
next
  case False
  then obtain blocks b where b: "content response = Some blocks" "find is_text blocks = Some b"
    by auto
  from find_is_text [OF b(2)] obtain payload where "b = TextBlock payload" by blast
  with b have "content response = Some blocks \<and> find is_text blocks = Some (TextBlock payload)" by simp
  then show ?thesis by (cases "P (extractJson payload)") blast+
qed

lemma extract_plain:
  assumes "0x60 \<notin> set t" and "t \<noteq> []" and "\<not> isWhiteSpace (hd t)" and "\<not> isWhiteSpace (last t)"
  shows "extractJson t = t"
  by (simp add: extractJson_def no_fence [OF assms(1)] trim_id [OF assms(2,3,4)])

lemma extract_with_note: "extractJson REPLY_WITH_NOTE = REPLY_WITH_NOTE"
  by (rule extract_plain) (simp_all add: REPLY_WITH_NOTE_def js_def isWhiteSpace_def)

lemma extract_missing_key: "extractJson REPLY_MISSING_KEY = REPLY_MISSING_KEY"
  by (rule extract_plain) (simp_all add: REPLY_MISSING_KEY_def js_def isWhiteSpace_def)

lemma parse_with_note: "example_JSON_parse REPLY_WITH_NOTE = Some parsed_with_note"
  by (simp add: example_JSON_parse_def)

lemma parse_missing_key: "example_JSON_parse REPLY_MISSING_KEY = Some parsed_missing_key"
  by (simp add: example_JSON_parse_def REPLY_TOSTRING_def REPLY_WITH_NOTE_def
        REPLY_MISSING_KEY_def js_def)

lemma validate_with_note:
  "validateResponse decimal parsed_with_note =
     Inr \<lparr>llm_words = [example_entry\<lparr>contextualNote := None\<rparr>],
          llm_alternativeTranslations = None\<rparr>"
  by (simp add: validateResponse_def isValidResponse_def parsed_with_note_def
        validateWordEntry_def example_entry_def js_def)

lemma parseResponse_with_note:
  "parseResponse example_JSON_parse decimal \<lparr>content = Some [TextBlock REPLY_WITH_NOTE]\<rparr> =
     Inr \<lparr>llm_words = [example_entry\<lparr>contextualNote := None\<rparr>],
          llm_alternativeTranslations = None\<rparr>"
  by (simp add: parseResponse_def is_text_def extract_with_note parseJson_def parse_with_note
        validate_with_note)

text \<open>
  C4, counterexample. The reply carries a contextual note on its entry and a list of
  alternative translations; the parser returns the entry without the note and no
  alternative translations.
\<close>

theorem parseResponse_drops_note_counterexample:
  "parseResponse example_JSON_parse decimal \<lparr>content = Some [TextBlock REPLY_WITH_NOTE]\<rparr> =
     Inr \<lparr>llm_words =
            [\<lparr>word = js ''om'', grammaticalForm = Some (js ''indeclinable''),
              meanings = [js ''sacred syllable''], dictionaryDefinitions = None,
              contextualNote = None\<rparr>],
          llm_alternativeTranslations = None\<rparr>"
  by (simp add: parseResponse_with_note example_entry_def)

text \<open>
  C4, as the code has it. For every reply the parser accepts, the output is the list of
  entries, one for each element of the \<open>words\<close> array and in its order, with \<open>word\<close>,
  \<open>grammaticalForm\<close> and \<open>meanings\<close> the string forms of the element's three properties.
  Nothing else of the reply is kept: \<open>contextualNote\<close> and \<open>dictionaryDefinitions\<close> are
  unset on every entry, and the output has no alternative translations.
\<close>

theorem parseResponse_output:
  assumes "parseResponse JSON_parse N response = Inr out"
  shows "\<exists>blocks payload props ws.
     content response = Some blocks \<and> find is_text blocks = Some (TextBlock payload) \<and>
     JSON_parse (extractJson payload) = Some (JObject props) \<and>
     map_of props (js ''words'') = Some (JArray ws) \<and>
     length (llm_words out) = length ws \<and>
     (\<forall>i < length ws. \<exists>e e_word e_grammaticalForm e_meanings.
        ws ! i = JObject e \<and> map_of e (js ''word'') = Some e_word \<and>
        map_of e (js ''grammaticalForm'') = Some e_grammaticalForm \<and>
        map_of e (js ''meanings'') = Some e_meanings \<and>
        ToString N e_word = Some (word (llm_words out ! i)) \<and>
        ToString N e_grammaticalForm = grammaticalForm (llm_words out ! i) \<and>
        map Some (meanings (llm_words out ! i)) =
          (case e_meanings of
             JArray ms \<Rightarrow> map (ToString N) ms
           | _ \<Rightarrow> [ToString N e_meanings]) \<and>
        dictionaryDefinitions (llm_words out ! i) = None \<and>
        contextualNote (llm_words out ! i) = None) \<and>
     llm_alternativeTranslations out = None"
proof -
  from parseResponse_stages [of response JSON_parse] assms
  obtain blocks payload where
    b: "content response = Some blocks" "find is_text blocks = Some (TextBlock payload)"
    by (auto simp: parseResponse_no_text)
  note eq = parseResponse_text [OF b, of JSON_parse N]
  from assms eq obtain parsed where
    p: "JSON_parse (extractJson payload) = Some parsed" "validateResponse N parsed = Inr out"
    by (cases "JSON_parse (extractJson payload)") auto
  from p(2) obtain props ws where
    s: "parsed = JObject props" "map_of props (js ''words'') = Some (JArray ws)"
    using validateResponse_invalid [of parsed N] by fastforce
  from p(2) obtain entries where
    m: "map_throwing (validateWordEntry N) ws = Inr entries"
    and o: "out = \<lparr>llm_words = entries, llm_alternativeTranslations = None\<rparr>"
    unfolding validateResponse_valid [OF s] by (cases "map_throwing (validateWordEntry N) ws") auto
  from map_throwing_Inr [OF m] have
    l: "length entries = length ws" and
    v: "\<forall>i < length ws. validateWordEntry N (ws ! i) = Inr (entries ! i)" by simp_all
  have "\<forall>i < length ws. \<exists>e e_word e_grammaticalForm e_meanings.
        ws ! i = JObject e \<and> map_of e (js ''word'') = Some e_word \<and>
        map_of e (js ''grammaticalForm'') = Some e_grammaticalForm \<and>
        map_of e (js ''meanings'') = Some e_meanings \<and>
        ToString N e_word = Some (word (entries ! i)) \<and>
        ToString N e_grammaticalForm = grammaticalForm (entries ! i) \<and>
        map Some (meanings (entries ! i)) =
          (case e_meanings of
             JArray ms \<Rightarrow> map (ToString N) ms
           | _ \<Rightarrow> [ToString N e_meanings]) \<and>
        dictionaryDefinitions (entries ! i) = None \<and>
        contextualNote (entries ! i) = None"
    using v validateWordEntry_Inr by blast
  with b p(1) s l o show ?thesis by auto
qed

theorem parseResponse_output_witness:
  "\<exists>out.
     parseResponse example_JSON_parse decimal \<lparr>content = Some [TextBlock REPLY_WITH_NOTE]\<rparr> =
       Inr out \<and>
     llm_alternativeTranslations out = None \<and> length (llm_words out) = 1"
proof -
  obtain out where
    r: "parseResponse example_JSON_parse decimal \<lparr>content = Some [TextBlock REPLY_WITH_NOTE]\<rparr> =
          Inr out"
    by (simp add: parseResponse_with_note)
  from parseResponse_output [OF r] obtain blocks payload props ws where
    f: "content \<lparr>content = Some [TextBlock REPLY_WITH_NOTE]\<rparr> = Some blocks"
       "find is_text blocks = Some (TextBlock payload)"
       "example_JSON_parse (extractJson payload) = Some (JObject props)"
       "map_of props (js ''words'') = Some (JArray ws)"
       "length (llm_words out) = length ws"
       "llm_alternativeTranslations out = None"
    by blast
  from f(1,2) have "payload = REPLY_WITH_NOTE"
    by (auto simp: is_text_def)
  with f(3,4) have "length ws = 1"
    by (auto simp: extract_with_note parse_with_note parsed_with_note_def)
  with f(5,6) r show ?thesis by (intro exI [of _ out] conjI) simp_all
qed


lemma parseResponse_rejected:
  assumes "parseResponse P N response = Inl err"
  shows "err = ClaudeLlmError EMPTY_RESPONSE \<or> err = ClaudeLlmError PARSE_FAILURE \<or>
         err = ClaudeLlmError INVALID_STRUCTURE \<or> err = ClaudeLlmError INVALID_ENTRY \<or>
         err = TypeError"
proof -
  consider
    (empty) "content response = None \<or>
       (\<exists>blocks. content response = Some blocks \<and> find is_text blocks = None)"
  | (unparsed) blocks payload where "content response = Some blocks"
      "find is_text blocks = Some (TextBlock payload)" "P (extractJson payload) = None"
  | (shape) blocks payload parsed where "content response = Some blocks"
      "find is_text blocks = Some (TextBlock payload)" "P (extractJson payload) = Some parsed"
      "\<not> (\<exists>props ws. parsed = JObject props \<and> map_of props (js ''words'') = Some (JArray ws))"
  | (entries) blocks payload parsed props ws where "content response = Some blocks"
      "find is_text blocks = Some (TextBlock payload)" "P (extractJson payload) = Some parsed"
      "parsed = JObject props" "map_of props (js ''words'') = Some (JArray ws)"
    using parseResponse_stages [of response P] by blast
  then show ?thesis
  proof cases
    case empty
    from parseResponse_no_text [OF this, of P N] assms show ?thesis by simp
  next
    case unparsed
    from parseResponse_text [OF unparsed(1,2), of P N] unparsed(3) assms show ?thesis by simp
  next
    case shape
    from parseResponse_text [OF shape(1,2), of P N] shape(3) validateResponse_invalid [OF shape(4), of N]
      assms show ?thesis by simp
  next
    case entries
    from parseResponse_text [OF entries(1,2), of P N] entries(3) assms
    have "validateResponse N parsed = Inl err" by simp
    then have "map_throwing (validateWordEntry N) ws = Inl err"
      unfolding validateResponse_valid [OF entries(4,5)] by (simp split: sum.splits)
    from map_throwing_Inl [OF this] obtain i where "validateWordEntry N (ws ! i) = Inl err" by blast
    from validateWordEntry_Inl [OF this] show ?thesis by blast
  qed
qed

lemma parseResponse_entries:
  assumes "content response = Some blocks" and "find is_text blocks = Some (TextBlock payload)"
    and "P (extractJson payload) = Some (JObject props)"
    and "map_of props (js ''words'') = Some (JArray ws)"
  shows "parseResponse P N response =
     (case map_throwing (validateWordEntry N) ws of
        Inl err \<Rightarrow> Inl err
      | Inr entries \<Rightarrow> Inr \<lparr>llm_words = entries, llm_alternativeTranslations = None\<rparr>)"
  using parseResponse_text [OF assms(1,2), of P N] assms(3)
    validateResponse_valid [OF refl assms(4), of N] by simp

lemma parseResponse_invalid_entry:
  assumes "content response = Some blocks" and "find is_text blocks = Some (TextBlock payload)"
    and "P (extractJson payload) = Some (JObject props)"
    and "map_of props (js ''words'') = Some (JArray ws)"
    and "i < length ws"
    and "\<forall>j < i. \<exists>w. validateWordEntry N (ws ! j) = Inr w"
    and "\<forall>e. ws ! i = JObject e \<longrightarrow> map_of e (js ''word'') = None \<or>
           map_of e (js ''grammaticalForm'') = None \<or> map_of e (js ''meanings'') = None"
  shows "parseResponse P N response = Inl (ClaudeLlmError INVALID_ENTRY)"
proof -
  from validateWordEntry_missing [OF assms(7)]
  have "validateWordEntry N (ws ! i) = Inl (ClaudeLlmError INVALID_ENTRY)" .
  from map_throwing_first_failure [OF assms(5) this assms(6)]
  show ?thesis unfolding parseResponse_entries [where P = P, OF assms(1-4)] by simp
qed

lemma parseResponse_TypeError:
  assumes "content response = Some blocks" and "find is_text blocks = Some (TextBlock payload)"
    and "P (extractJson payload) = Some (JObject props)"
    and "map_of props (js ''words'') = Some (JArray ws)"
    and "parseResponse P N response = Inl TypeError"
  shows "\<exists>i < length ws. \<exists>e e_word e_grammaticalForm e_meanings.
        ws ! i = JObject e \<and> map_of e (js ''word'') = Some e_word \<and>
        map_of e (js ''grammaticalForm'') = Some e_grammaticalForm \<and>
        map_of e (js ''meanings'') = Some e_meanings \<and>
        (ToString N e_word = None \<or> ToString N e_grammaticalForm = None \<or>
         (case e_meanings of
            JArray ms \<Rightarrow> \<exists>m\<in>set ms. ToString N m = None
          | _ \<Rightarrow> ToString N e_meanings = None))"
proof -
  from assms(5) have "map_throwing (validateWordEntry N) ws = Inl TypeError"
    unfolding parseResponse_entries [where P = P, OF assms(1-4)] by (simp split: sum.splits)
  from map_throwing_Inl [OF this] obtain i where
    i: "i < length ws" "validateWordEntry N (ws ! i) = Inl TypeError" by blast
  from validateWordEntry_Inl [OF i(2)] i(1) show ?thesis by blast
qed

text \<open>
  C8, as the code has it. The four messages are pairwise different, and the one for a bad
  shape contains \<open>missing words array\<close>. Whatever the reply, \<open>parseResponse\<close> rejects
  only with a \<open>ClaudeLlmError\<close> carrying one of the four, or with the runtime's
  \<open>TypeError\<close>. The first failing stage decides: no content or no text block gives the
  empty-response message; a payload that does not parse gives the parse-failure message;
  a parsed value that is not an object with a \<open>words\<close> array gives the structure message;
  and when the first element of the array that does not validate lacks \<open>word\<close>,
  \<open>grammaticalForm\<close> or \<open>meanings\<close>, the entry message. A \<open>TypeError\<close> comes only from an
  element that has the three properties and whose \<open>word\<close>, \<open>grammaticalForm\<close> or
  \<open>meanings\<close> has no string form.
\<close>

theorem parseResponse_rejections:
  "distinct [EMPTY_RESPONSE, PARSE_FAILURE, INVALID_STRUCTURE, INVALID_ENTRY] \<and>
   includes_str INVALID_STRUCTURE (js ''missing words array'') \<and>
   (\<forall>err. parseResponse P N response = Inl err \<longrightarrow>
      err = ClaudeLlmError EMPTY_RESPONSE \<or> err = ClaudeLlmError PARSE_FAILURE \<or>
      err = ClaudeLlmError INVALID_STRUCTURE \<or> err = ClaudeLlmError INVALID_ENTRY \<or>
      err = TypeError) \<and>
   (content response = None \<or>
      (\<exists>blocks. content response = Some blocks \<and> find is_text blocks = None) \<longrightarrow>
    parseResponse P N response = Inl (ClaudeLlmError EMPTY_RESPONSE)) \<and>
   (\<forall>blocks payload.
      content response = Some blocks \<and> find is_text blocks = Some (TextBlock payload) \<longrightarrow>
      (P (extractJson payload) = None \<longrightarrow>
         parseResponse P N response = Inl (ClaudeLlmError PARSE_FAILURE)) \<and>
      (\<forall>parsed. P (extractJson payload) = Some parsed \<longrightarrow>
         (\<not> (\<exists>props ws. parsed = JObject props \<and>
                map_of props (js ''words'') = Some (JArray ws)) \<longrightarrow>
            parseResponse P N response = Inl (ClaudeLlmError INVALID_STRUCTURE)) \<and>
         (\<forall>props ws. parsed = JObject props \<and> map_of props (js ''words'') = Some (JArray ws) \<longrightarrow>
            (\<forall>i < length ws.
               (\<forall>j < i. \<exists>w. validateWordEntry N (ws ! j) = Inr w) \<and>
               (\<forall>e. ws ! i = JObject e \<longrightarrow> map_of e (js ''word'') = None \<or>
                  map_of e (js ''grammaticalForm'') = None \<or>
                  map_of e (js ''meanings'') = None) \<longrightarrow>
               parseResponse P N response = Inl (ClaudeLlmError INVALID_ENTRY)) \<and>
            (parseResponse P N response = Inl TypeError \<longrightarrow>
               (\<exists>i < length ws. \<exists>e e_word e_grammaticalForm e_meanings.
                  ws ! i = JObject e \<and> map_of e (js ''word'') = Some e_word \<and>
                  map_of e (js ''grammaticalForm'') = Some e_grammaticalForm \<and>
                  map_of e (js ''meanings'') = Some e_meanings \<and>
                  (ToString N e_word = None \<or> ToString N e_grammaticalForm = None \<or>
                   (case e_meanings of
                      JArray ms \<Rightarrow> \<exists>m\<in>set ms. ToString N m = None
                    | _ \<Rightarrow> ToString N e_meanings = None)))))))"
proof (intro conjI allI impI)
  show "distinct [EMPTY_RESPONSE, PARSE_FAILURE, INVALID_STRUCTURE, INVALID_ENTRY]"
    by (rule messages_distinct)
  show "includes_str INVALID_STRUCTURE (js ''missing words array'')"
    by (rule invalid_structure_fragment)
next
  fix err assume "parseResponse P N response = Inl err"
  then show "err = ClaudeLlmError EMPTY_RESPONSE \<or> err = ClaudeLlmError PARSE_FAILURE \<or>
      err = ClaudeLlmError INVALID_STRUCTURE \<or> err = ClaudeLlmError INVALID_ENTRY \<or>
      err = TypeError"
    by (rule parseResponse_rejected)
next
  assume "content response = None \<or>
      (\<exists>blocks. content response = Some blocks \<and> find is_text blocks = None)"
  then show "parseResponse P N response = Inl (ClaudeLlmError EMPTY_RESPONSE)"
    by (rule parseResponse_no_text)
next
  fix blocks payload
  assume b: "content response = Some blocks \<and> find is_text blocks = Some (TextBlock payload)"
  note eq = parseResponse_text [OF conjunct1 [OF b] conjunct2 [OF b], of P N]
  {
    assume "P (extractJson payload) = None"
    with eq show "parseResponse P N response = Inl (ClaudeLlmError PARSE_FAILURE)" by simp
  }
  fix parsed assume p: "P (extractJson payload) = Some parsed"
  {
    assume "\<not> (\<exists>props ws. parsed = JObject props \<and> map_of props (js ''words'') = Some (JArray ws))"
    from validateResponse_invalid [OF this, of N] eq p
    show "parseResponse P N response = Inl (ClaudeLlmError INVALID_STRUCTURE)" by simp
  }
  fix props ws
  assume s: "parsed = JObject props \<and> map_of props (js ''words'') = Some (JArray ws)"
  from p s have p': "P (extractJson payload) = Some (JObject props)" by simp
  {
    fix i
    assume i: "i < length ws"
      and h: "(\<forall>j < i. \<exists>w. validateWordEntry N (ws ! j) = Inr w) \<and>
               (\<forall>e. ws ! i = JObject e \<longrightarrow> map_of e (js ''word'') = None \<or>
                  map_of e (js ''grammaticalForm'') = None \<or>
                  map_of e (js ''meanings'') = None)"
    from parseResponse_invalid_entry
      [where P = P, OF conjunct1 [OF b] conjunct2 [OF b] p' conjunct2 [OF s] i conjunct1 [OF h] conjunct2 [OF h]]
    show "parseResponse P N response = Inl (ClaudeLlmError INVALID_ENTRY)" .
  }
  assume "parseResponse P N response = Inl TypeError"
  from parseResponse_TypeError [where P = P, OF conjunct1 [OF b] conjunct2 [OF b] p' conjunct2 [OF s] this]
  show "\<exists>i < length ws. \<exists>e e_word e_grammaticalForm e_meanings.
                  ws ! i = JObject e \<and> map_of e (js ''word'') = Some e_word \<and>
                  map_of e (js ''grammaticalForm'') = Some e_grammaticalForm \<and>
                  map_of e (js ''meanings'') = Some e_meanings \<and>
                  (ToString N e_word = None \<or> ToString N e_grammaticalForm = None \<or>
                   (case e_meanings of
                      JArray ms \<Rightarrow> \<exists>m\<in>set ms. ToString N m = None
                    | _ \<Rightarrow> ToString N e_meanings = None))" .
qed


theorem parseResponse_rejections_witness:
  "parseResponse example_JSON_parse decimal \<lparr>content = Some [TextBlock REPLY_MISSING_KEY]\<rparr> =
     Inl (ClaudeLlmError INVALID_ENTRY)"
proof -
  have c: "content \<lparr>content = Some [TextBlock REPLY_MISSING_KEY]\<rparr> =
             Some [TextBlock REPLY_MISSING_KEY] \<and>
           find is_text [TextBlock REPLY_MISSING_KEY] = Some (TextBlock REPLY_MISSING_KEY)"
    by (simp add: is_text_def)
  have p: "example_JSON_parse (extractJson REPLY_MISSING_KEY) = Some parsed_missing_key"
    by (simp add: extract_missing_key parse_missing_key)
  have s: "parsed_missing_key =
             JObject [(js ''words'', JArray [JObject [(js ''word'', JString (js ''om''))]])] \<and>
           map_of [(js ''words'', JArray [JObject [(js ''word'', JString (js ''om''))]])]
             (js ''words'') = Some (JArray [JObject [(js ''word'', JString (js ''om''))]])"
    by (simp add: parsed_missing_key_def)
  have i: "0 < length [JObject [(js ''word'', JString (js ''om''))] :: nat json]"
    by simp
  have h: "(\<forall>j < 0. \<exists>w. validateWordEntry decimal
              ([JObject [(js ''word'', JString (js ''om''))]] ! j) = Inr w) \<and>
           (\<forall>e. [JObject [(js ''word'', JString (js ''om''))] :: nat json] ! 0 = JObject e \<longrightarrow>
              map_of e (js ''word'') = None \<or> map_of e (js ''grammaticalForm'') = None \<or>
              map_of e (js ''meanings'') = None)"
    by (simp add: js_def)
  from parseResponse_rejections
    [of example_JSON_parse decimal "\<lparr>content = Some [TextBlock REPLY_MISSING_KEY]\<rparr>"]
  have "\<forall>blocks payload.
      content \<lparr>content = Some [TextBlock REPLY_MISSING_KEY]\<rparr> = Some blocks \<and>
      find is_text blocks = Some (TextBlock payload) \<longrightarrow>
      (\<forall>parsed. example_JSON_parse (extractJson payload) = Some parsed \<longrightarrow>
         (\<forall>props ws. parsed = JObject props \<and> map_of props (js ''words'') = Some (JArray ws) \<longrightarrow>
            (\<forall>i < length ws.
               (\<forall>j < i. \<exists>w. validateWordEntry decimal (ws ! j) = Inr w) \<and>
               (\<forall>e. ws ! i = JObject e \<longrightarrow> map_of e (js ''word'') = None \<or>
                  map_of e (js ''grammaticalForm'') = None \<or>
                  map_of e (js ''meanings'') = None) \<longrightarrow>
               parseResponse example_JSON_parse decimal
                 \<lparr>content = Some [TextBlock REPLY_MISSING_KEY]\<rparr> =
                 Inl (ClaudeLlmError INVALID_ENTRY))))"
    by blast
  from this c p s i h show ?thesis by blast
qed

text \<open>
  C8, counterexample. The reply is JSON with a \<open>words\<close> array whose entry has the three
  properties, and its \<open>word\<close> is an object with a property named \<open>toString\<close>: the
  conversion \<^verbatim>\<open>String(e.word)\<close> throws a \<open>TypeError\<close>, which is none of the four
  rejections of the parser.
\<close>

theorem parseResponse_TypeError_counterexample:
  "parseResponse example_JSON_parse decimal \<lparr>content = Some [TextBlock REPLY_TOSTRING]\<rparr> =
     Inl TypeError"
proof -
  have v: "validateResponse decimal parsed_toString = Inl TypeError"
    by (simp add: validateResponse_def isValidResponse_def parsed_toString_def
          validateWordEntry_def js_def)
  show ?thesis
    by (simp add: parseResponse_def is_text_def extract_toString parseJson_def parse_toString v)
qed

end
